theory Spec2Isabelle
  imports Complex_Main "HOL-Library.Multiset" "HOL-Library.Char_ord" "HOL-Library.List_Lexorder"
begin

section \<open>Test-network bootstrap of \<open>testutil/integration/evmos/network/setup.go\<close>\<close>

text \<open>
  The file assembles genesis data from types of the Cosmos SDK, CometBFT and other
  packages of the application. Functions of \<open>setup.go\<close> are embedded one to one.
  What they call outside the file is kept apart:
  \<^item> plain constructors and struct types are records with the fields the file sets;
  \<^item> the library's coin arithmetic and the hexadecimal address string are modelled as
    the libraries compute them, with their panics;
  \<^item> the key generation of \<open>mock.NewPV\<close> is a parameter, a source of fresh keys;
  \<^item> library behaviour the file only passes through (key conversion, bech32 address
    encodings, module addresses, default parameters) is a field of the record \<open>deps\<close>,
    a parameter of every function that uses it;
  \<^item> the application object is modelled by its codec, the only part the file uses.
  A function that can panic returns \<open>panic + result\<close>, \<open>Inl\<close> the panic. Pointers to
  validators and the genesis map a composer is given are not \<open>nil\<close>; the pointers the
  model does follow to \<open>nil\<close> are the overrides of the custom genesis map and the genesis
  map returned beside an error (\<open>None\<close>).
\<close>

subsection \<open>Basic values\<close>

type_synonym bytes = string

text \<open>A Go \<open>error\<close> value, by its message.\<close>

datatype error = Errorf string

text \<open>A run-time panic, by its message. The properties below say that a call panics,
  not with which message.\<close>

datatype panic = Panic string

text \<open>\<open>sdkmath.LegacyDec\<close>: a fixed-point decimal, an integer scaled by \<open>10^18\<close>.\<close>

datatype LegacyDec = LegacyDec (dec_raw: int)

definition LegacyPrecision :: nat where
  "LegacyPrecision = 18"

definition LegacyZeroDec :: LegacyDec where
  "LegacyZeroDec = LegacyDec 0"

definition LegacyOneDec :: LegacyDec where
  "LegacyOneDec = LegacyDec (10 ^ LegacyPrecision)"

definition dec_value :: "LegacyDec \<Rightarrow> rat" where
  "dec_value d = of_int (dec_raw d) / of_int (10 ^ LegacyPrecision)"

text \<open>\<open>sdkmath.ZeroInt()\<close>; \<open>sdkmath.Int\<close> is modelled by \<open>int\<close>.\<close>

definition ZeroInt :: int where
  "ZeroInt = 0"

text \<open>\<open>time.Time\<close>: seconds and nanoseconds since the Unix epoch, and the location.\<close>

datatype Location = Local | UTC

record Time =
  unix_sec :: int
  unix_nsec :: int
  loc :: Location

definition time_Unix :: "int \<Rightarrow> int \<Rightarrow> Time" where
  "time_Unix sec nsec =
     \<lparr>unix_sec = sec + nsec div 1000000000, unix_nsec = nsec mod 1000000000, loc = Local\<rparr>"

definition time_UTC :: "Time \<Rightarrow> Time" where
  "time_UTC t = t\<lparr>loc := UTC\<rparr>"

subsection \<open>Keys, consensus validators and signers\<close>

text \<open>A consensus public key (\<open>crypto.PubKey\<close>) and an SDK public key
  (\<open>cryptotypes.PubKey\<close>): key type and key bytes.\<close>

datatype TmPubKey = TmPubKey (tm_key_type: string) (tm_key_bytes: bytes)

datatype SdkPubKey = SdkPubKey (sdk_key_type: string) (sdk_key_bytes: bytes)

text \<open>\<open>mock.PV\<close>, the signer returned by \<open>mock.NewPV()\<close>.\<close>

datatype MockPV = MockPV (PrivKey: bytes)

text \<open>\<open>codectypes.Any\<close>: a type URL and the serialized value.\<close>

record Any =
  TypeUrl :: string
  Value :: bytes

text \<open>\<open>cmttypes.Validator\<close>.\<close>

record cmt_Validator =
  Address :: bytes
  PubKey :: TmPubKey
  VotingPower :: int
  ProposerPriority :: int

text \<open>\<open>cmttypes.ValidatorSet\<close> is built by the library's \<open>NewValidatorSet\<close> from the
  slice the file hands over; the file never looks inside it.\<close>

datatype ValidatorSet = NewValidatorSet (validators_given: "cmt_Validator list")

subsection \<open>Coins, balances, accounts\<close>

text \<open>A coin's amount is an \<open>sdkmath.Int\<close>, an integer of at most 256 bits; the
  arithmetic on it checks the bound (see \<open>Int_Add\<close>).\<close>

record Coin =
  Denom :: string
  Amount :: int

type_synonym Coins = "Coin list"

record Balance =
  Balance_Address :: string
  Balance_Coins :: Coins

record BaseAccount =
  Account_Address :: string
  Account_PubKey :: "Any option"
  AccountNumber :: nat
  Sequence :: nat

subsection \<open>Staking types\<close>

datatype BondStatus = Unspecified | Unbonded | Unbonding | Bonded

record Description =
  Moniker :: string
  Identity :: string
  Website :: string
  SecurityContact :: string
  Details :: string

definition Description_zero :: Description where
  "Description_zero =
     \<lparr>Moniker = [], Identity = [], Website = [], SecurityContact = [], Details = []\<rparr>"

record CommissionRates =
  Rate :: LegacyDec
  MaxRate :: LegacyDec
  MaxChangeRate :: LegacyDec

record Commission =
  Commission_Rates :: CommissionRates
  UpdateTime :: Time

definition NewCommission :: "LegacyDec \<Rightarrow> LegacyDec \<Rightarrow> LegacyDec \<Rightarrow> Commission" where
  "NewCommission rate maxRate maxChangeRate =
     \<lparr>Commission_Rates = \<lparr>Rate = rate, MaxRate = maxRate, MaxChangeRate = maxChangeRate\<rparr>,
      UpdateTime = time_UTC (time_Unix 0 0)\<rparr>"

record staking_Validator =
  OperatorAddress :: string
  ConsensusPubkey :: "Any option"
  Jailed :: bool
  Status :: BondStatus
  Tokens :: int
  DelegatorShares :: LegacyDec
  Validator_Description :: Description
  UnbondingHeight :: int
  UnbondingTime :: Time
  Validator_Commission :: Commission
  MinSelfDelegation :: int

record Delegation =
  DelegatorAddress :: string
  ValidatorAddress :: string
  Shares :: LegacyDec

definition NewDelegation :: "string \<Rightarrow> string \<Rightarrow> LegacyDec \<Rightarrow> Delegation" where
  "NewDelegation delegatorAddr validatorAddr shares =
     \<lparr>DelegatorAddress = delegatorAddr, ValidatorAddress = validatorAddr, Shares = shares\<rparr>"

record staking_Params =
  UnbondingTimeParam :: int
  MaxValidators :: nat
  MaxEntries :: nat
  HistoricalEntries :: nat
  BondDenom :: string
  MinCommissionRate :: LegacyDec

record staking_GenesisState =
  staking_Params :: staking_Params
  staking_Validators :: "staking_Validator list"
  staking_Delegations :: "Delegation list"

definition staking_NewGenesisState ::
  "staking_Params \<Rightarrow> staking_Validator list \<Rightarrow> Delegation list \<Rightarrow> staking_GenesisState" where
  "staking_NewGenesisState params vals dels =
     \<lparr>staking_Params = params, staking_Validators = vals, staking_Delegations = dels\<rparr>"

subsection \<open>Auth, bank, inflation and EVM genesis types\<close>

record auth_Params =
  MaxMemoCharacters :: nat
  TxSigLimit :: nat
  TxSizeCostPerByte :: nat
  SigVerifyCostED25519 :: nat
  SigVerifyCostSecp256k1 :: nat

record auth_GenesisState =
  auth_Params :: auth_Params
  auth_Accounts :: "BaseAccount list"

definition auth_NewGenesisState :: "auth_Params \<Rightarrow> BaseAccount list \<Rightarrow> auth_GenesisState" where
  "auth_NewGenesisState params accounts = \<lparr>auth_Params = params, auth_Accounts = accounts\<rparr>"

record bank_Params =
  DefaultSendEnabled :: bool

record bank_GenesisState =
  bank_Params :: bank_Params
  bank_Balances :: "Balance list"
  bank_Supply :: Coins
  bank_DenomMetadata :: "string list"
  bank_SendEnabled :: "string list"

definition bank_NewGenesisState ::
  "bank_Params \<Rightarrow> Balance list \<Rightarrow> Coins \<Rightarrow> string list \<Rightarrow> string list \<Rightarrow> bank_GenesisState" where
  "bank_NewGenesisState params balances supply metadata sendEnabled =
     \<lparr>bank_Params = params, bank_Balances = balances, bank_Supply = supply,
      bank_DenomMetadata = metadata, bank_SendEnabled = sendEnabled\<rparr>"

text \<open>
  Modelled from the spec: the inflation module's \<open>Params\<close>, \<open>GenesisState\<close> and
  \<open>NewGenesisState\<close>, and the epochs module's \<open>DayEpochID\<close>, belong to this repository
  but not to \<open>setup.go\<close>. The spec names the parts of the section (inflation switch,
  skipped epochs, "day" epoch identifier, epochs per period); \<open>NewGenesisState\<close> takes
  them in the order parameters, period, epoch identifier, epochs per period, skipped
  epochs.
\<close>

record infl_Params =
  MintDenom :: string
  EnableInflation :: bool

record infl_GenesisState =
  infl_Params :: infl_Params
  Period :: nat
  EpochIdentifier :: string
  EpochsPerPeriod :: int
  SkippedEpochs :: nat

definition infl_NewGenesisState ::
  "infl_Params \<Rightarrow> nat \<Rightarrow> string \<Rightarrow> int \<Rightarrow> nat \<Rightarrow> infl_GenesisState" where
  "infl_NewGenesisState params period epochIdentifier epochsPerPeriod skippedEpochs =
     \<lparr>infl_Params = params, Period = period, EpochIdentifier = epochIdentifier,
      EpochsPerPeriod = epochsPerPeriod, SkippedEpochs = skippedEpochs\<rparr>"

definition DayEpochID :: string where
  "DayEpochID = ''day''"

text \<open>The EVM module's genesis state is declared outside the file, which only hands it
  to the codec.\<close>

datatype evm_GenesisState = evm_GenesisState (evm_content: bytes)

subsection \<open>Genesis maps, custom overrides and the codec\<close>

text \<open>Module names, the keys of the genesis map.\<close>

definition staking_ModuleName :: string where
  "staking_ModuleName = ''staking''"

definition auth_ModuleName :: string where
  "auth_ModuleName = ''auth''"

definition bank_ModuleName :: string where
  "bank_ModuleName = ''bank''"

definition infl_ModuleName :: string where
  "infl_ModuleName = ''inflation''"

definition evm_ModuleName :: string where
  "evm_ModuleName = ''evm''"

definition BondedPoolName :: string where
  "BondedPoolName = ''bonded_tokens_pool''"

text \<open>\<open>types.GenesisState\<close> is \<open>map[string]json.RawMessage\<close>.\<close>

type_synonym GenesisState = "string \<rightharpoonup> bytes"

text \<open>
  \<open>CustomGenesisState\<close> is \<open>map[string]interface{}\<close>. A stored value is known by its
  dynamic type: a pointer to the inflation or to the EVM genesis state (\<open>None\<close> the
  \<open>nil\<close> pointer of that type), the \<open>nil\<close> interface, or a value of any other type,
  kept with the name \<open>%T\<close> prints for it.
\<close>

datatype iface =
  NilValue
  | InflationGenesisPtr "infl_GenesisState option"
  | EvmGenesisPtr "evm_GenesisState option"
  | OtherValue string

type_synonym CustomGenesisState = "string \<rightharpoonup> iface"

text \<open>What \<open>fmt\<close>'s verb \<open>%T\<close> prints: the package-qualified type name.\<close>

fun fmt_T :: "iface \<Rightarrow> string" where
  "fmt_T NilValue = ''<nil>''"
| "fmt_T (InflationGenesisPtr _) = ''*types.GenesisState''"
| "fmt_T (EvmGenesisPtr _) = ''*types.GenesisState''"
| "fmt_T (OtherValue tyname) = tyname"

text \<open>The messages the file serializes.\<close>

datatype proto_msg =
  StakingGenesis staking_GenesisState
  | AuthGenesis auth_GenesisState
  | BankGenesis bank_GenesisState
  | InflationGenesis infl_GenesisState
  | EvmGenesis evm_GenesisState

text \<open>The application, by the codec \<open>evmosApp.AppCodec()\<close> returns.\<close>

record Codec =
  MustMarshalJSON :: "proto_msg \<Rightarrow> bytes"

record Evmos =
  AppCodec :: Codec

text \<open>
  \<open>MustMarshalJSON\<close> applied to a pointer: the codec serializes what a pointer points to
  and panics on a \<open>nil\<close> pointer.
\<close>

definition MustMarshalJSON_ptr ::
  "Codec \<Rightarrow> ('a \<Rightarrow> proto_msg) \<Rightarrow> 'a option \<Rightarrow> panic + bytes" where
  "MustMarshalJSON_ptr codec msg_of ptr =
     (case ptr of
        None \<Rightarrow> Inl (Panic ''Marshal called with nil'')
      | Some m \<Rightarrow> Inr (MustMarshalJSON codec (msg_of m)))"

subsection \<open>What the file takes from its libraries\<close>

record deps =
  FromTmPubKeyInterface :: "TmPubKey \<Rightarrow> error + SdkPubKey"
  NewAnyWithValue :: "SdkPubKey \<Rightarrow> error + Any"
  ValAddress_String :: "bytes \<Rightarrow> string"
  AccAddress_String :: "bytes \<Rightarrow> string"
  NewModuleAddress :: "string \<Rightarrow> bytes"
  staking_DefaultParams :: staking_Params
  auth_DefaultParams :: auth_Params
  bank_DefaultParams :: bank_Params
  infl_DefaultParams :: infl_Params

subsection \<open>Key generation\<close>

text \<open>
  \<open>mock.NewPV()\<close> draws an ed25519 private key from \<open>crypto/rand\<close>; the library derives
  the public key from it and the address from the public key. A key generator gives the
  private key of the \<open>i\<close>-th draw and the two derivations. Fresh random keys have
  different addresses: that two draws give the same address has negligible probability,
  and the generators of the model are those where it does not happen.
\<close>

typedef keygen =
  "{(draw :: nat \<Rightarrow> bytes, pub :: bytes \<Rightarrow> bytes, addr :: TmPubKey \<Rightarrow> bytes).
      inj (\<lambda>i. addr (TmPubKey ''ed25519'' (pub (draw i))))}"
proof
  show "(\<lambda>i. replicate i CHR ''k'', \<lambda>b. b, tm_key_bytes) \<in>
    {(draw :: nat \<Rightarrow> bytes, pub :: bytes \<Rightarrow> bytes, addr :: TmPubKey \<Rightarrow> bytes).
      inj (\<lambda>i. addr (TmPubKey ''ed25519'' (pub (draw i))))}"
    by (auto simp: inj_def dest: arg_cong[where f = length])
qed

setup_lifting type_definition_keygen

lift_definition GenPrivKey :: "keygen \<Rightarrow> nat \<Rightarrow> bytes" is "\<lambda>(draw, pub, addr). draw" .

lift_definition PrivKey_PubKey :: "keygen \<Rightarrow> bytes \<Rightarrow> bytes" is "\<lambda>(draw, pub, addr). pub" .

lift_definition PubKey_Address :: "keygen \<Rightarrow> TmPubKey \<Rightarrow> bytes" is "\<lambda>(draw, pub, addr). addr" .

text \<open>The signer of the \<open>i\<close>-th call of \<open>mock.NewPV()\<close>.\<close>

definition mock_NewPV :: "keygen \<Rightarrow> nat \<Rightarrow> MockPV" where
  "mock_NewPV kg i = MockPV (GenPrivKey kg i)"

text \<open>\<open>mock.PV.GetPubKey\<close>: the public key of the signer's ed25519 key, and Go's second
  result, the error, which is \<open>nil\<close> for such a key.\<close>

definition PV_GetPubKey :: "keygen \<Rightarrow> MockPV \<Rightarrow> TmPubKey \<times> error option" where
  "PV_GetPubKey kg pv = (TmPubKey ''ed25519'' (PrivKey_PubKey kg (PrivKey pv)), None)"

text \<open>\<open>HexBytes.String()\<close>: two upper-case hexadecimal digits for each byte.\<close>

definition hex_digit :: "nat \<Rightarrow> char" where
  "hex_digit k = (if k < 10 then char_of (48 + k) else char_of (55 + k))"

definition hex_byte :: "char \<Rightarrow> string" where
  "hex_byte c = [hex_digit (of_char c div 16), hex_digit (of_char c mod 16)]"

definition HexBytes_String :: "bytes \<Rightarrow> string" where
  "HexBytes_String bz = concat (map hex_byte bz)"

subsection \<open>Coins of the SDK\<close>

text \<open>
  \<open>sdkmath.Int\<close> holds integers of at most 256 bits, \<open>\<bar>x\<bar> < 2^256\<close>; its addition
  panics when the sum has more.
\<close>

definition MaxBitLen :: nat where
  "MaxBitLen = 256"

definition Int_Add :: "int \<Rightarrow> int \<Rightarrow> panic + int" where
  "Int_Add a b =
     (if 2 ^ MaxBitLen \<le> \<bar>a + b\<bar> then Inl (Panic ''Int overflow'') else Inr (a + b))"

text \<open>The amounts of one denomination, added one by one to the running amount.\<close>

fun sum_amounts :: "int \<Rightarrow> int list \<Rightarrow> panic + int" where
  "sum_amounts acc [] = Inr acc"
| "sum_amounts acc (x # xs) =
     (case Int_Add acc x of Inl p \<Rightarrow> Inl p | Inr s \<Rightarrow> sum_amounts s xs)"

text \<open>\<open>Coins.isSorted\<close>: no coin has a smaller denomination than the coin before it.\<close>

fun isSorted :: "Coins \<Rightarrow> bool" where
  "isSorted (c1 # c2 # cs) = (\<not> Denom c1 > Denom c2 \<and> isSorted (c2 # cs))"
| "isSorted _ = True"

text \<open>
  \<open>Coins.Add\<close> (\<open>safeAdd\<close>) panics unless both coin lists are sorted. It then collects
  the coins of each denomination, adds their amounts from zero, keeps the sums that are
  not zero and sorts the result by denomination. \<open>coalesce\<close> goes through the
  denominations in sorted order.
\<close>

fun coalesce :: "Coins \<Rightarrow> string list \<Rightarrow> panic + Coins" where
  "coalesce both [] = Inr []"
| "coalesce both (x # xs) =
     (case sum_amounts 0 (map Amount (filter (\<lambda>c. Denom c = x) both)) of
        Inl p \<Rightarrow> Inl p
      | Inr comboAmount \<Rightarrow>
          (case coalesce both xs of
             Inl p \<Rightarrow> Inl p
           | Inr coalesced \<Rightarrow>
               Inr (if comboAmount = 0 then coalesced
                    else \<lparr>Denom = x, Amount = comboAmount\<rparr> # coalesced)))"

definition Coins_Add :: "Coins \<Rightarrow> Coins \<Rightarrow> panic + Coins" where
  "Coins_Add coins coinsB =
     (if \<not> isSorted coins then Inl (Panic ''Coins (self) must be sorted'')
      else if \<not> isSorted coinsB then Inl (Panic ''Wrong argument: coins must be sorted'')
      else coalesce (coins @ coinsB) (sort (remdups (map Denom (coins @ coinsB)))))"

text \<open>
  \<open>NewCoins\<close> drops the zero coins, sorts by denomination and panics unless the result
  is valid: every denomination well formed, every amount positive, the denominations
  strictly increasing. A denomination is a letter followed by 2 to 127 letters, digits or
  characters of \<open>/:._-\<close>.
\<close>

definition is_letter :: "char \<Rightarrow> bool" where
  "is_letter c = (let n = of_char c :: nat in (65 \<le> n \<and> n \<le> 90) \<or> (97 \<le> n \<and> n \<le> 122))"

definition is_denom_char :: "char \<Rightarrow> bool" where
  "is_denom_char c =
     (let n = of_char c :: nat
      in is_letter c \<or> (48 \<le> n \<and> n \<le> 57) \<or> n = 47 \<or> n = 58 \<or> n = 46 \<or> n = 95 \<or> n = 45)"

fun ValidateDenom :: "string \<Rightarrow> bool" where
  "ValidateDenom [] = False"
| "ValidateDenom (c # cs) =
     (is_letter c \<and> 2 \<le> length cs \<and> length cs \<le> 127 \<and> list_all is_denom_char cs)"

fun validate_from :: "string \<Rightarrow> Coins \<Rightarrow> bool" where
  "validate_from lowDenom [] = True"
| "validate_from lowDenom (coin # rest) =
     (ValidateDenom (Denom coin) \<and> \<not> Denom coin < lowDenom \<and> Denom coin \<noteq> lowDenom
      \<and> 0 < Amount coin \<and> validate_from (Denom coin) rest)"

fun Coins_Validate :: "Coins \<Rightarrow> bool" where
  "Coins_Validate [] = True"
| "Coins_Validate (coin # rest) =
     (ValidateDenom (Denom coin) \<and> 0 < Amount coin \<and> validate_from (Denom coin) rest)"

definition sanitizeCoins :: "Coins \<Rightarrow> Coins" where
  "sanitizeCoins coins =
     (let newCoins = filter (\<lambda>c. Amount c \<noteq> 0) coins
      in if newCoins = [] then [] else sort_key Denom newCoins)"

definition NewCoins :: "Coins \<Rightarrow> panic + Coins" where
  "NewCoins coins =
     (let newCoins = sanitizeCoins coins
      in if Coins_Validate newCoins then Inr newCoins else Inl (Panic ''invalid coin set''))"

subsection \<open>Validators and signers\<close>

text \<open>\<open>cmttypes.NewValidator(pubKey, votingPower)\<close>.\<close>

definition NewValidator :: "keygen \<Rightarrow> TmPubKey \<Rightarrow> int \<Rightarrow> cmt_Validator" where
  "NewValidator kg pubKey votingPower =
     \<lparr>Address = PubKey_Address kg pubKey, PubKey = pubKey, VotingPower = votingPower,
      ProposerPriority = 0\<rparr>"

text \<open>
  The loop of \<open>createValidatorSetAndSigners\<close>, from counter \<open>i\<close> with the slice and the
  map built so far. The error \<open>GetPubKey\<close> returns is dropped, as in the source
  (\<open>pubKey, _ := privVal.GetPubKey()\<close>).
\<close>

function createValidatorSetAndSigners_loop ::
  "keygen \<Rightarrow> nat \<Rightarrow> nat \<Rightarrow> cmt_Validator list \<Rightarrow> (string \<rightharpoonup> MockPV)
     \<Rightarrow> cmt_Validator list \<times> (string \<rightharpoonup> MockPV)" where
  "createValidatorSetAndSigners_loop kg i n tmValidators signers =
     (if i < n then
        (let privVal = mock_NewPV kg i;
             pubKey = fst (PV_GetPubKey kg privVal);
             validator = NewValidator kg pubKey 1
         in createValidatorSetAndSigners_loop kg (Suc i) n (tmValidators @ [validator])
              (signers(HexBytes_String (PubKey_Address kg pubKey) \<mapsto> privVal)))
      else (tmValidators, signers))"
  by pat_completeness auto
termination
  by (relation "measure (\<lambda>(kg, i, n, vs, m). n - i)") auto

declare createValidatorSetAndSigners_loop.simps [simp del]

text \<open>\<open>make\<close> with a negative capacity panics; otherwise the function has no failing
  branch.\<close>

definition createValidatorSetAndSigners ::
  "keygen \<Rightarrow> int \<Rightarrow> panic + (ValidatorSet \<times> (string \<rightharpoonup> MockPV))" where
  "createValidatorSetAndSigners kg numberOfValidators =
     (if numberOfValidators < 0 then Inl (Panic ''runtime error: makeslice: cap out of range'')
      else (case createValidatorSetAndSigners_loop kg 0 (nat numberOfValidators) [] Map.empty of
              (tmValidators, signers) \<Rightarrow> Inr (NewValidatorSet tmValidators, signers)))"

subsection \<open>Accounts and balances\<close>

definition NewBaseAccount :: "deps \<Rightarrow> bytes \<Rightarrow> Any option \<Rightarrow> nat \<Rightarrow> nat \<Rightarrow> BaseAccount" where
  "NewBaseAccount d address pubKey accountNumber sequence =
     \<lparr>Account_Address = AccAddress_String d address, Account_PubKey = pubKey,
      AccountNumber = accountNumber, Sequence = sequence\<rparr>"

definition createGenesisAccounts :: "deps \<Rightarrow> bytes list \<Rightarrow> BaseAccount list" where
  "createGenesisAccounts d accounts = map (\<lambda>acc. NewBaseAccount d acc None 0 0) accounts"

text \<open>The loop of \<open>createBalances\<close>: \<open>NewCoins(coin)\<close> is called for each account and
  panics on a coin that is not valid.\<close>

fun createBalances_loop ::
  "deps \<Rightarrow> bytes list \<Rightarrow> Coin \<Rightarrow> Balance list \<Rightarrow> panic + Balance list" where
  "createBalances_loop d [] coin fundedAccountBalances = Inr fundedAccountBalances"
| "createBalances_loop d (acc # rest) coin fundedAccountBalances =
     (case NewCoins [coin] of
        Inl p \<Rightarrow> Inl p
      | Inr coins \<Rightarrow>
          createBalances_loop d rest coin
            (fundedAccountBalances @
               [\<lparr>Balance_Address = AccAddress_String d acc, Balance_Coins = coins\<rparr>]))"

definition createBalances :: "deps \<Rightarrow> bytes list \<Rightarrow> Coin \<Rightarrow> panic + Balance list" where
  "createBalances d accounts coin = createBalances_loop d accounts coin []"

subsection \<open>Staking validators and delegations\<close>

definition createStakingValidator ::
  "deps \<Rightarrow> cmt_Validator \<Rightarrow> int \<Rightarrow> error + staking_Validator" where
  "createStakingValidator d val bondedAmt =
     (case FromTmPubKeyInterface d (PubKey val) of
        Inl err \<Rightarrow> Inl err
      | Inr pk \<Rightarrow>
          (case NewAnyWithValue d pk of
             Inl err \<Rightarrow> Inl err
           | Inr pkAny \<Rightarrow>
               (let commission = NewCommission LegacyZeroDec LegacyZeroDec LegacyZeroDec
                in Inr \<lparr>OperatorAddress = ValAddress_String d (Address val),
                        ConsensusPubkey = Some pkAny,
                        Jailed = False,
                        Status = Bonded,
                        Tokens = bondedAmt,
                        DelegatorShares = LegacyOneDec,
                        Validator_Description = Description_zero,
                        UnbondingHeight = 0,
                        UnbondingTime = time_UTC (time_Unix 0 0),
                        Validator_Commission = commission,
                        MinSelfDelegation = ZeroInt\<rparr>)))"

text \<open>The loop of \<open>createStakingValidators\<close>: the first error ends it.\<close>

fun createStakingValidators_loop ::
  "deps \<Rightarrow> cmt_Validator list \<Rightarrow> int \<Rightarrow> staking_Validator list
     \<Rightarrow> error + staking_Validator list" where
  "createStakingValidators_loop d [] bondedAmt stakingValidators = Inr stakingValidators"
| "createStakingValidators_loop d (val # rest) bondedAmt stakingValidators =
     (case createStakingValidator d val bondedAmt of
        Inl err \<Rightarrow> Inl err
      | Inr validator \<Rightarrow>
          createStakingValidators_loop d rest bondedAmt (stakingValidators @ [validator]))"

definition createStakingValidators ::
  "deps \<Rightarrow> cmt_Validator list \<Rightarrow> int \<Rightarrow> error + staking_Validator list" where
  "createStakingValidators d tmValidators bondedAmt =
     createStakingValidators_loop d tmValidators bondedAmt []"

definition createDelegations :: "deps \<Rightarrow> cmt_Validator list \<Rightarrow> bytes \<Rightarrow> Delegation list" where
  "createDelegations d tmValidators fromAccount =
     map (\<lambda>val. NewDelegation (AccAddress_String d fromAccount)
                  (ValAddress_String d (Address val)) LegacyOneDec) tmValidators"

subsection \<open>Genesis composers\<close>

text \<open>
  A composer writes into the map it is given and returns that map. The composers
  without an error result are modelled by the map after the call. The two with an error
  result return a triple: the contents of the caller's map when the call returns, the
  returned map (\<open>None\<close> for \<open>nil\<close>) and the returned error (\<open>None\<close> for \<open>nil\<close>); they
  serialize the genesis state through its pointer and panic when the codec does.
\<close>

record StakingCustomGenesisState =
  denom :: string
  validators :: "staking_Validator list"
  delegations :: "Delegation list"

definition setStakingGenesisState ::
  "deps \<Rightarrow> Evmos \<Rightarrow> GenesisState \<Rightarrow> StakingCustomGenesisState \<Rightarrow> GenesisState" where
  "setStakingGenesisState d evmosApp genesisState overwriteParams =
     (let stakingParams = (staking_DefaultParams d)\<lparr>BondDenom := denom overwriteParams\<rparr>;
          stakingGenesis = staking_NewGenesisState stakingParams (validators overwriteParams)
                             (delegations overwriteParams)
      in genesisState(staking_ModuleName \<mapsto>
           MustMarshalJSON (AppCodec evmosApp) (StakingGenesis stakingGenesis)))"

definition setAuthGenesisState ::
  "deps \<Rightarrow> Evmos \<Rightarrow> GenesisState \<Rightarrow> BaseAccount list \<Rightarrow> GenesisState" where
  "setAuthGenesisState d evmosApp genesisState genAccounts =
     (let authGenesis = auth_NewGenesisState (auth_DefaultParams d) genAccounts
      in genesisState(auth_ModuleName \<mapsto>
           MustMarshalJSON (AppCodec evmosApp) (AuthGenesis authGenesis)))"

definition setInflationGenesisState ::
  "deps \<Rightarrow> Evmos \<Rightarrow> GenesisState \<Rightarrow> CustomGenesisState
     \<Rightarrow> panic + (GenesisState \<times> GenesisState option \<times> error option)" where
  "setInflationGenesisState d evmosApp genesisState customGenesis =
     (case (case customGenesis infl_ModuleName of
              None \<Rightarrow>
                (let inflationParams = (infl_DefaultParams d)\<lparr>EnableInflation := False\<rparr>;
                     defaultGen = infl_NewGenesisState inflationParams 0 DayEpochID 365 0
                 in Inr (Some defaultGen))
            | Some custGen \<Rightarrow>
                (case custGen of
                   InflationGenesisPtr ptr \<Rightarrow> Inr ptr
                 | _ \<Rightarrow> Inl (Errorf (''invalid type '' @ fmt_T custGen @
                                     '' for inflation genesis state'')))) of
        Inl err \<Rightarrow> Inr (genesisState, None, Some err)
      | Inr inflGenesis \<Rightarrow>
          (case MustMarshalJSON_ptr (AppCodec evmosApp) InflationGenesis inflGenesis of
             Inl p \<Rightarrow> Inl p
           | Inr bz \<Rightarrow>
               (let written = genesisState(infl_ModuleName \<mapsto> bz)
                in Inr (written, Some written, None))))"

record BankCustomGenesisState =
  totalSupply :: Coins
  balances :: "Balance list"

definition setBankGenesisState ::
  "deps \<Rightarrow> Evmos \<Rightarrow> GenesisState \<Rightarrow> BankCustomGenesisState \<Rightarrow> GenesisState" where
  "setBankGenesisState d evmosApp genesisState overwriteParams =
     (let bankGenesis = bank_NewGenesisState (bank_DefaultParams d) (balances overwriteParams)
                          (totalSupply overwriteParams) [] []
      in genesisState(bank_ModuleName \<mapsto>
           MustMarshalJSON (AppCodec evmosApp) (BankGenesis bankGenesis)))"

definition setEVMGenesisState ::
  "Evmos \<Rightarrow> GenesisState \<Rightarrow> CustomGenesisState
     \<Rightarrow> panic + (GenesisState \<times> GenesisState option \<times> error option)" where
  "setEVMGenesisState evmosApp genesisState customGenesis =
     (case customGenesis evm_ModuleName of
        None \<Rightarrow> Inr (genesisState, Some genesisState, None)
      | Some custGen \<Rightarrow>
          (case custGen of
             EvmGenesisPtr evmGenesis \<Rightarrow>
               (case MustMarshalJSON_ptr (AppCodec evmosApp) EvmGenesis evmGenesis of
                  Inl p \<Rightarrow> Inl p
                | Inr bz \<Rightarrow>
                    (let written = genesisState(evm_ModuleName \<mapsto> bz)
                     in Inr (written, Some written, None)))
           | _ \<Rightarrow>
               Inr (genesisState, None,
                    Some (Errorf (''invalid type '' @ fmt_T custGen @
                                  '' for evm genesis state'')))))"

subsection \<open>Total supply\<close>

text \<open>The loop of \<open>calculateTotalSupply\<close>, with the running total; a panic of the
  library's addition ends it.\<close>

fun calculateTotalSupply_loop :: "Coins \<Rightarrow> Balance list \<Rightarrow> panic + Coins" where
  "calculateTotalSupply_loop supply [] = Inr supply"
| "calculateTotalSupply_loop supply (balance # rest) =
     (case Coins_Add supply (Balance_Coins balance) of
        Inl p \<Rightarrow> Inl p
      | Inr added \<Rightarrow> calculateTotalSupply_loop added rest)"

definition calculateTotalSupply :: "Balance list \<Rightarrow> panic + Coins" where
  "calculateTotalSupply fundedAccountsBalances =
     (case NewCoins [] of
        Inl p \<Rightarrow> Inl p
      | Inr supply \<Rightarrow> calculateTotalSupply_loop supply fundedAccountsBalances)"

definition addBondedModuleAccountToFundedBalances ::
  "deps \<Rightarrow> Balance list \<Rightarrow> Coin \<Rightarrow> Balance list" where
  "addBondedModuleAccountToFundedBalances d fundedAccountsBalances totalBonded =
     fundedAccountsBalances @
       [\<lparr>Balance_Address = AccAddress_String d (NewModuleAddress d BondedPoolName),
         Balance_Coins = [totalBonded]\<rparr>]"

subsection \<open>Notions used to state the properties\<close>

text \<open>A call that panics does not return.\<close>

definition panics :: "panic + 'a \<Rightarrow> bool" where
  "panics r = isl r"

text \<open>The public key of the \<open>i\<close>-th generated signer and the string of a key's address,
  under which its signer is stored.\<close>

definition generated_key :: "keygen \<Rightarrow> nat \<Rightarrow> TmPubKey" where
  "generated_key kg i = fst (PV_GetPubKey kg (mock_NewPV kg i))"

definition address_string :: "keygen \<Rightarrow> TmPubKey \<Rightarrow> string" where
  "address_string kg pubKey = HexBytes_String (PubKey_Address kg pubKey)"

text \<open>The coordinate of a coin list at a denomination: the sum of the amounts of its
  coins of that denomination.\<close>

definition amount_of :: "Coins \<Rightarrow> string \<Rightarrow> int" where
  "amount_of coins x = sum_list (map Amount (filter (\<lambda>c. Denom c = x) coins))"

text \<open>The same sum over the absolute values of the amounts.\<close>

definition abs_amount_of :: "Coins \<Rightarrow> string \<Rightarrow> int" where
  "abs_amount_of coins x =
     sum_list (map (\<lambda>c. \<bar>Amount c\<bar>) (filter (\<lambda>c. Denom c = x) coins))"

text \<open>The coin list \<open>Coins_Add\<close> returns when it returns: one coin for each denomination
  whose amounts do not add up to zero, in sorted order.\<close>

definition added_coins :: "Coins \<Rightarrow> Coins \<Rightarrow> Coins" where
  "added_coins a b =
     map (\<lambda>x. \<lparr>Denom = x, Amount = amount_of (a @ b) x\<rparr>)
       (filter (\<lambda>x. amount_of (a @ b) x \<noteq> 0) (sort (remdups (map Denom (a @ b)))))"

text \<open>Whether an override has the dynamic type a composer asks for.\<close>

fun is_inflation_genesis :: "iface \<Rightarrow> bool" where
  "is_inflation_genesis (InflationGenesisPtr _) = True"
| "is_inflation_genesis _ = False"

fun is_evm_genesis :: "iface \<Rightarrow> bool" where
  "is_evm_genesis (EvmGenesisPtr _) = True"
| "is_evm_genesis _ = False"

subsection \<open>Concrete values, for the examples\<close>

text \<open>A key generator whose \<open>i\<close>-th private key is \<open>i + 1\<close> letters \<open>k\<close>, with the
  public key and the address equal to it.\<close>

lift_definition demo_keygen :: keygen is
  "(\<lambda>i. replicate (Suc i) CHR ''k'', \<lambda>b. b, tm_key_bytes)"
  by (auto simp: inj_def dest: arg_cong[where f = length])

definition demo_deps :: deps where
  "demo_deps =
     \<lparr>FromTmPubKeyInterface =
        (\<lambda>k. if tm_key_type k = ''ed25519'' then Inr (SdkPubKey ''ed25519'' (tm_key_bytes k))
             else Inl (Errorf ''key type not supported'')),
      NewAnyWithValue =
        (\<lambda>pk. Inr \<lparr>TypeUrl = ''/cosmos.crypto.ed25519.PubKey'', Value = sdk_key_bytes pk\<rparr>),
      ValAddress_String = (\<lambda>b. ''evmosvaloper'' @ b),
      AccAddress_String = (\<lambda>b. ''evmos'' @ b),
      NewModuleAddress = (\<lambda>name. name),
      staking_DefaultParams =
        \<lparr>UnbondingTimeParam = 1814400, MaxValidators = 100, MaxEntries = 7,
         HistoricalEntries = 10000, BondDenom = ''stake'', MinCommissionRate = LegacyZeroDec\<rparr>,
      auth_DefaultParams =
        \<lparr>MaxMemoCharacters = 256, TxSigLimit = 7, TxSizeCostPerByte = 10,
         SigVerifyCostED25519 = 590, SigVerifyCostSecp256k1 = 1000\<rparr>,
      bank_DefaultParams = \<lparr>DefaultSendEnabled = True\<rparr>,
      infl_DefaultParams = \<lparr>MintDenom = ''aevmos'', EnableInflation = True\<rparr>\<rparr>"

text \<open>A codec that prints a tag for the kind of message, an application with it, and a
  genesis map with one section.\<close>

fun demo_marshal :: "proto_msg \<Rightarrow> bytes" where
  "demo_marshal (StakingGenesis g) = ''staking:'' @ BondDenom (staking_Params g)"
| "demo_marshal (AuthGenesis g) = ''auth''"
| "demo_marshal (BankGenesis g) = ''bank''"
| "demo_marshal (InflationGenesis g) = ''inflation:'' @ EpochIdentifier g"
| "demo_marshal (EvmGenesis g) = ''evm:'' @ evm_content g"

definition demo_app :: Evmos where
  "demo_app = \<lparr>AppCodec = \<lparr>MustMarshalJSON = demo_marshal\<rparr>\<rparr>"

definition demo_genesis :: GenesisState where
  "demo_genesis = [''auth'' \<mapsto> ''auth'']"

definition demo_validator :: cmt_Validator where
  "demo_validator =
     \<lparr>Address = ''kk'', PubKey = TmPubKey ''ed25519'' ''kk'', VotingPower = 1,
      ProposerPriority = 0\<rparr>"

definition demo_bad_validator :: cmt_Validator where
  "demo_bad_validator =
     \<lparr>Address = ''qq'', PubKey = TmPubKey ''sr25519'' ''qq'', VotingPower = 1,
      ProposerPriority = 0\<rparr>"

definition demo_balances :: "Balance list" where
  "demo_balances =
     [\<lparr>Balance_Address = ''evmos1'', Balance_Coins = [\<lparr>Denom = ''aevmos'', Amount = 5\<rparr>]\<rparr>,
      \<lparr>Balance_Address = ''evmos2'',
       Balance_Coins = [\<lparr>Denom = ''aevmos'', Amount = 2\<rparr>, \<lparr>Denom = ''stake'', Amount = 3\<rparr>]\<rparr>]"

text \<open>A balance whose coins are not sorted, and three balances of one denomination:
  the largest amount an \<open>Int\<close> holds, one, and minus one.\<close>

definition unsorted_balance :: Balance where
  "unsorted_balance =
     \<lparr>Balance_Address = ''evmos3'',
      Balance_Coins = [\<lparr>Denom = ''stake'', Amount = 3\<rparr>, \<lparr>Denom = ''aevmos'', Amount = 2\<rparr>]\<rparr>"

definition brim_balance :: Balance where
  "brim_balance =
     \<lparr>Balance_Address = ''evmos4'',
      Balance_Coins = [\<lparr>Denom = ''aevmos'', Amount = 2 ^ 256 - 1\<rparr>]\<rparr>"

definition plus_one_balance :: Balance where
  "plus_one_balance =
     \<lparr>Balance_Address = ''evmos5'', Balance_Coins = [\<lparr>Denom = ''aevmos'', Amount = 1\<rparr>]\<rparr>"

definition minus_one_balance :: Balance where
  "minus_one_balance =
     \<lparr>Balance_Address = ''evmos6'', Balance_Coins = [\<lparr>Denom = ''aevmos'', Amount = - 1\<rparr>]\<rparr>"

definition demo_inflation_genesis :: infl_GenesisState where
  "demo_inflation_genesis =
     infl_NewGenesisState \<lparr>MintDenom = ''aevmos'', EnableInflation = True\<rparr> 1 ''week'' 52 0"

definition demo_overrides :: CustomGenesisState where
  "demo_overrides =
     [infl_ModuleName \<mapsto> InflationGenesisPtr (Some demo_inflation_genesis),
      evm_ModuleName \<mapsto> EvmGenesisPtr (Some (evm_GenesisState ''accounts''))]"

definition demo_bad_overrides :: CustomGenesisState where
  "demo_bad_overrides =
     [infl_ModuleName \<mapsto> EvmGenesisPtr (Some (evm_GenesisState ''accounts'')),
      evm_ModuleName \<mapsto> OtherValue ''string'']"

text \<open>Overrides that are \<open>nil\<close> pointers of the expected types.\<close>

definition demo_nil_overrides :: CustomGenesisState where
  "demo_nil_overrides =
     [infl_ModuleName \<mapsto> InflationGenesisPtr None, evm_ModuleName \<mapsto> EvmGenesisPtr None]"

definition demo_staking_one :: StakingCustomGenesisState where
  "demo_staking_one = \<lparr>denom = ''stake'', validators = [], delegations = []\<rparr>"

definition demo_staking_two :: StakingCustomGenesisState where
  "demo_staking_two =
     \<lparr>denom = ''aevmos'', validators = [],
      delegations = [NewDelegation ''evmos1'' ''evmosvaloperkk'' LegacyOneDec]\<rparr>"

section \<open>Properties\<close>

subsection \<open>Validators and signers\<close>

lemma signers_loop_closed:
  "createValidatorSetAndSigners_loop kg i n vs m =
     (vs @ map (\<lambda>j. NewValidator kg (generated_key kg j) 1) [i..<n],
      fold (\<lambda>j s. s(address_string kg (generated_key kg j) \<mapsto> mock_NewPV kg j)) [i..<n] m)"
proof (induction "n - i" arbitrary: i vs m)
  case 0
  then show ?case
    by (subst createValidatorSetAndSigners_loop.simps) simp
next
  case (Suc k)
  then have lt: "i < n" and k: "k = n - Suc i"
    by simp_all
  have upt: "[i..<n] = i # [Suc i..<n]"
    using lt by (simp add: upt_conv_Cons)
  show ?case
    using lt Suc.hyps(1)[OF k]
    by (subst createValidatorSetAndSigners_loop.simps)
       (simp add: upt Let_def generated_key_def address_string_def)
qed

lemma fold_upd_dom: "dom (fold (\<lambda>j s. s(k j \<mapsto> v j)) js m) = dom m \<union> k ` set js"
  by (induction js arbitrary: m) auto

lemma fold_upd_other:
  "x \<notin> k ` set js \<Longrightarrow> fold (\<lambda>j s. s(k j \<mapsto> v j)) js m x = m x"
  by (induction js arbitrary: m) auto

lemma fold_upd_lookup:
  "distinct (map k js) \<Longrightarrow> j \<in> set js \<Longrightarrow>
     fold (\<lambda>j s. s(k j \<mapsto> v j)) js m (k j) = Some (v j)"
proof (induction js arbitrary: m)
  case Nil
  then show ?case by simp
next
  case (Cons a js)
  show ?case
  proof (cases "j = a")
    case True
    with Cons.prems show ?thesis
      using fold_upd_other[of "k a" k js v "m(k a \<mapsto> v a)"]
      by (simp del: fun_upd_apply) simp
  next
    case False
    with Cons show ?thesis by simp
  qed
qed

text \<open>The hexadecimal string determines the bytes.\<close>

lemma of_char_hex_digit:
  "k < 16 \<Longrightarrow> of_char (hex_digit k) = (if k < 10 then 48 + k else 55 + k)"
  by (simp add: hex_digit_def)

lemma hex_digit_inj: "i < 16 \<Longrightarrow> j < 16 \<Longrightarrow> hex_digit i = hex_digit j \<Longrightarrow> i = j"
proof -
  assume a: "i < 16" "j < 16" "hex_digit i = hex_digit j"
  then have "(of_char (hex_digit i) :: nat) = of_char (hex_digit j)" by simp
  with a(1,2) show "i = j"
    by (simp add: of_char_hex_digit split: if_splits)
qed

lemma hex_byte_inj: "hex_byte c = hex_byte c' \<Longrightarrow> c = c'"
proof -
  assume a: "hex_byte c = hex_byte c'"
  let ?n = "of_char c :: nat" and ?m = "of_char c' :: nat"
  have lt: "?n < 256" "?m < 256"
    by (simp_all add: of_char_def)
  then have d: "?n div 16 < 16" "?m div 16 < 16"
    by presburger+
  have m: "?n mod 16 < 16" "?m mod 16 < 16"
    by simp_all
  have "hex_digit (?n div 16) = hex_digit (?m div 16)"
       "hex_digit (?n mod 16) = hex_digit (?m mod 16)"
    using a by (simp_all add: hex_byte_def)
  then have "?n div 16 = ?m div 16" "?n mod 16 = ?m mod 16"
    using d m by (simp_all add: hex_digit_inj)
  then have "?n = ?m"
    by (metis div_mult_mod_eq)
  then show "c = c'"
    by simp
qed

lemma HexBytes_String_inj: "HexBytes_String a = HexBytes_String b \<Longrightarrow> a = b"
proof (induction a arbitrary: b)
  case Nil
  then show ?case by (cases b) (simp_all add: HexBytes_String_def hex_byte_def)
next
  case (Cons x xs)
  show ?case
  proof (cases b)
    case Nil
    with Cons.prems show ?thesis by (simp add: HexBytes_String_def hex_byte_def)
  next
    case (Cons y ys)
    with Cons.prems have "hex_byte x = hex_byte y" "HexBytes_String xs = HexBytes_String ys"
      by (simp_all add: HexBytes_String_def hex_byte_def)
    then show ?thesis
      using Cons Cons.IH hex_byte_inj by blast
  qed
qed

text \<open>The generated signers are stored under pairwise different keys.\<close>

lemma fresh_addresses: "inj (\<lambda>i. address_string kg (generated_key kg i))"
proof -
  have "inj (\<lambda>i. PubKey_Address kg (fst (PV_GetPubKey kg (mock_NewPV kg i))))"
    unfolding PV_GetPubKey_def mock_NewPV_def
    by transfer auto
  then show ?thesis
    by (auto simp: inj_def address_string_def generated_key_def dest: HexBytes_String_inj)
qed

lemma demo_keygen_eval:
  "GenPrivKey demo_keygen i = replicate (Suc i) CHR ''k''"
  "PrivKey_PubKey demo_keygen b = b"
  "PubKey_Address demo_keygen k = tm_key_bytes k"
  by (simp_all add: GenPrivKey.rep_eq PrivKey_PubKey.rep_eq PubKey_Address.rep_eq
        demo_keygen.rep_eq)

lemma hex_kk: "HexBytes_String ''kk'' = ''6B6B''"
  by code_simp



subsection \<open>Coin addition\<close>

lemma isSorted_sorted: "isSorted cs \<longleftrightarrow> sorted (map Denom cs)"
  by (induction cs rule: isSorted.induct) (auto simp: not_less intro: order_trans)

lemma sum_amounts_ok:
  "\<bar>acc\<bar> + sum_list (map abs xs) < 2 ^ MaxBitLen \<Longrightarrow>
     sum_amounts acc xs = Inr (acc + sum_list xs)"
proof (induction xs arbitrary: acc)
  case Nil
  then show ?case by simp
next
  case (Cons x xs)
  have nn: "0 \<le> sum_list (map abs xs)"
    by (rule sum_list_nonneg) auto
  have "\<bar>acc + x\<bar> < 2 ^ MaxBitLen"
    using Cons.prems nn by simp
  then have "Int_Add acc x = Inr (acc + x)"
    by (simp add: Int_Add_def)
  moreover have "sum_amounts (acc + x) xs = Inr (acc + x + sum_list xs)"
    using Cons.prems by (intro Cons.IH) simp
  ultimately show ?case by (simp add: add.assoc)
qed

lemma abs_amount_of_nonneg: "0 \<le> abs_amount_of cs x"
  unfolding abs_amount_of_def by (rule sum_list_nonneg) auto

lemma abs_amount_of_append:
  "abs_amount_of (a @ b) x = abs_amount_of a x + abs_amount_of b x"
  by (simp add: abs_amount_of_def)

lemma amount_of_le_abs: "\<bar>amount_of cs x\<bar> \<le> abs_amount_of cs x"
  unfolding amount_of_def abs_amount_of_def
  using sum_list_abs[of "map Amount (filter (\<lambda>c. Denom c = x) cs)"] by (simp add: comp_def)

lemma coalesce_ok:
  assumes "\<forall>x. abs_amount_of both x < 2 ^ MaxBitLen"
  shows "coalesce both xs =
           Inr (map (\<lambda>x. \<lparr>Denom = x, Amount = amount_of both x\<rparr>)
                  (filter (\<lambda>x. amount_of both x \<noteq> 0) xs))"
proof (induction xs)
  case Nil
  then show ?case by simp
next
  case (Cons x xs)
  have "sum_amounts 0 (map Amount (filter (\<lambda>c. Denom c = x) both)) = Inr (amount_of both x)"
    using sum_amounts_ok[of 0 "map Amount (filter (\<lambda>c. Denom c = x) both)"] assms
    by (simp add: amount_of_def abs_amount_of_def comp_def)
  with Cons show ?case by simp
qed

lemma Coins_Add_ok:
  assumes "isSorted a" "isSorted b" "\<forall>x. abs_amount_of (a @ b) x < 2 ^ MaxBitLen"
  shows "Coins_Add a b = Inr (added_coins a b)"
  using assms coalesce_ok[of "a @ b"] by (simp add: Coins_Add_def added_coins_def)

lemma added_coins_sorted: "isSorted (added_coins a b)"
proof -
  have "sorted (filter (\<lambda>x. amount_of (a @ b) x \<noteq> 0) (sort (remdups (map Denom (a @ b)))))"
    using sorted_filter[of "\<lambda>x. x" "sort (remdups (map Denom (a @ b)))"] by simp
  then show ?thesis
    by (simp add: isSorted_sorted added_coins_def comp_def)
qed

lemma amount_of_append: "amount_of (a @ b) x = amount_of a x + amount_of b x"
  by (simp add: amount_of_def)

lemma amount_of_canonical:
  assumes "distinct xs"
  shows "amount_of (map (\<lambda>x. \<lparr>Denom = x, Amount = f x\<rparr>) xs) y = (if y \<in> set xs then f y else 0)"
  using assms by (induction xs) (auto simp: amount_of_def)

lemma amount_of_absent: "x \<notin> Denom ` set coins \<Longrightarrow> amount_of coins x = 0"
  by (induction coins) (auto simp: amount_of_def)

lemma added_coins_amount: "amount_of (added_coins a b) x = amount_of a x + amount_of b x"
proof -
  have "amount_of (added_coins a b) x = amount_of (a @ b) x"
    unfolding added_coins_def
    by (subst amount_of_canonical) (use amount_of_absent[of x "a @ b"] in auto)
  then show ?thesis by (simp add: amount_of_append)
qed

lemma added_coins_canonical:
  "added_coins a b = map (\<lambda>x. \<lparr>Denom = x, Amount = amount_of (a @ b) x\<rparr>)
      (sorted_list_of_set {x. amount_of (a @ b) x \<noteq> 0})"
proof -
  let ?S = "{x. amount_of (a @ b) x \<noteq> 0}"
  let ?l = "filter (\<lambda>x. amount_of (a @ b) x \<noteq> 0) (sort (remdups (map Denom (a @ b))))"
  have sub: "?S \<subseteq> Denom ` set (a @ b)"
    using amount_of_absent[of _ "a @ b"] by blast
  then have fin: "finite ?S"
    by (rule finite_subset) simp
  have "set ?l = ?S"
    using sub by auto
  moreover have "sorted ?l"
    using sorted_filter[of "\<lambda>x. x" "sort (remdups (map Denom (a @ b)))"] by simp
  moreover have "distinct ?l"
    by simp
  ultimately have "?l = sorted_list_of_set ?S"
    using fin by (intro sorted_distinct_set_unique) simp_all
  then show ?thesis by (simp add: added_coins_def)
qed

lemma added_coins_depends:
  assumes "\<And>x. amount_of (a @ b) x = amount_of (a' @ b') x"
  shows "added_coins a b = added_coins a' b'"
  unfolding added_coins_canonical by (simp add: assms)

lemma added_coins_right_commute:
  "added_coins (added_coins t a) b = added_coins (added_coins t b) a"
  by (rule added_coins_depends) (simp add: amount_of_append added_coins_amount)

lemma fold_added_amount:
  "amount_of (fold (\<lambda>b t. added_coins t (Balance_Coins b)) bs acc) x =
     amount_of acc x + (\<Sum>b\<leftarrow>bs. amount_of (Balance_Coins b) x)"
  by (induction bs arbitrary: acc) (simp_all add: added_coins_amount add.assoc)

lemma fold_added_perm:
  assumes "mset bs' = mset bs"
  shows "fold (\<lambda>b t. added_coins t (Balance_Coins b)) bs' acc =
         fold (\<lambda>b t. added_coins t (Balance_Coins b)) bs acc"
proof -
  let ?f = "\<lambda>b t. added_coins t (Balance_Coins b)"
  have "?f x \<circ> ?f y = ?f y \<circ> ?f x" for x y
  proof
    fix t
    show "(?f x \<circ> ?f y) t = (?f y \<circ> ?f x) t"
      using added_coins_right_commute[of t "Balance_Coins y" "Balance_Coins x"] by simp
  qed
  then have "fold ?f bs' = fold ?f bs"
    using assms by (intro fold_multiset_equiv)
  then show ?thesis by simp
qed

lemma abs_amount_of_canonical:
  assumes "distinct xs"
  shows "abs_amount_of (map (\<lambda>x. \<lparr>Denom = x, Amount = f x\<rparr>) xs) y =
           (if y \<in> set xs then \<bar>f y\<bar> else 0)"
  using assms by (induction xs) (auto simp: abs_amount_of_def)

lemma added_coins_abs:
  "abs_amount_of (added_coins a b) x \<le> abs_amount_of a x + abs_amount_of b x"
proof -
  have "abs_amount_of (added_coins a b) x \<le> \<bar>amount_of (a @ b) x\<bar>"
    unfolding added_coins_def by (subst abs_amount_of_canonical) auto
  also have "\<dots> \<le> abs_amount_of (a @ b) x"
    by (rule amount_of_le_abs)
  finally show ?thesis
    by (simp add: abs_amount_of_append)
qed

lemma supply_loop_ok:
  assumes "isSorted acc"
      and "\<forall>b\<in>set bs. isSorted (Balance_Coins b)"
      and "\<forall>x. abs_amount_of acc x + (\<Sum>b\<leftarrow>bs. abs_amount_of (Balance_Coins b) x)
             < 2 ^ MaxBitLen"
  shows "calculateTotalSupply_loop acc bs =
           Inr (fold (\<lambda>b t. added_coins t (Balance_Coins b)) bs acc)"
  using assms
proof (induction bs arbitrary: acc)
  case Nil
  then show ?case by simp
next
  case (Cons b bs)
  have rest: "0 \<le> (\<Sum>b\<leftarrow>bs. abs_amount_of (Balance_Coins b) x)" for x
    by (rule sum_list_nonneg) (auto simp: abs_amount_of_nonneg)
  have bound: "\<forall>x. abs_amount_of (acc @ Balance_Coins b) x < 2 ^ MaxBitLen"
  proof
    fix x
    have "abs_amount_of (acc @ Balance_Coins b) x \<le>
            abs_amount_of acc x + (\<Sum>b\<leftarrow>b # bs. abs_amount_of (Balance_Coins b) x)"
      using rest[of x] by (simp add: abs_amount_of_append)
    also have "\<dots> < 2 ^ MaxBitLen"
      using Cons.prems(3) by blast
    finally show "abs_amount_of (acc @ Balance_Coins b) x < 2 ^ MaxBitLen" .
  qed
  have step: "Coins_Add acc (Balance_Coins b) = Inr (added_coins acc (Balance_Coins b))"
    using Cons.prems(1,2) bound by (intro Coins_Add_ok) simp_all
  have "calculateTotalSupply_loop (added_coins acc (Balance_Coins b)) bs =
          Inr (fold (\<lambda>b t. added_coins t (Balance_Coins b)) bs (added_coins acc (Balance_Coins b)))"
  proof (intro Cons.IH)
    show "isSorted (added_coins acc (Balance_Coins b))"
      by (rule added_coins_sorted)
    show "\<forall>b\<in>set bs. isSorted (Balance_Coins b)"
      using Cons.prems(2) by simp
    show "\<forall>x. abs_amount_of (added_coins acc (Balance_Coins b)) x
               + (\<Sum>b\<leftarrow>bs. abs_amount_of (Balance_Coins b) x) < 2 ^ MaxBitLen"
    proof
      fix x
      have "abs_amount_of (added_coins acc (Balance_Coins b)) x
               + (\<Sum>b\<leftarrow>bs. abs_amount_of (Balance_Coins b) x)
            \<le> abs_amount_of acc x + (\<Sum>b\<leftarrow>b # bs. abs_amount_of (Balance_Coins b) x)"
        using added_coins_abs[of acc "Balance_Coins b" x] by simp
      also have "\<dots> < 2 ^ MaxBitLen"
        using Cons.prems(3) by blast
      finally show "abs_amount_of (added_coins acc (Balance_Coins b)) x
               + (\<Sum>b\<leftarrow>bs. abs_amount_of (Balance_Coins b) x) < 2 ^ MaxBitLen" .
    qed
  qed
  with step show ?case by simp
qed

lemma NewCoins_empty: "NewCoins [] = Inr []"
  by (simp add: NewCoins_def sanitizeCoins_def)

lemma calculateTotalSupply_start:
  "calculateTotalSupply bs = calculateTotalSupply_loop [] bs"
  by (simp add: calculateTotalSupply_def NewCoins_empty)

lemma supply_loop_append:
  "calculateTotalSupply_loop acc (bs @ [b]) =
     (case calculateTotalSupply_loop acc bs of
        Inl p \<Rightarrow> Inl p
      | Inr supply \<Rightarrow> Coins_Add supply (Balance_Coins b))"
  by (induction bs arbitrary: acc) (simp_all split: sum.splits)

subsection \<open>Total supply\<close>

text \<open>
  The library's addition panics on a coin list that is not sorted and on a sum of more
  than 256 bits, and \<open>calculateTotalSupply\<close> with it: on a balance whose coins are not
  sorted it does not return, and of two orders of the same three balances one returns
  and the other does not.
\<close>

theorem calculateTotalSupply_counterexample:
  "panics (calculateTotalSupply [unsorted_balance])
   \<and> calculateTotalSupply [brim_balance, minus_one_balance, plus_one_balance] =
       Inr [\<lparr>Denom = ''aevmos'', Amount = 2 ^ 256 - 1\<rparr>]
   \<and> panics (calculateTotalSupply [brim_balance, plus_one_balance, minus_one_balance])"
  by code_simp

text \<open>
  C3. For every list of balances whose coin lists are sorted by denomination and whose
  amounts cannot overflow (for each denomination the absolute values of the amounts of
  all balances add up to less than \<open>2^256\<close>), \<open>calculateTotalSupply\<close> returns a coin
  list that holds, at every denomination, the sum of the amounts of all balances, and
  it returns the same coin list for every reordering of the balances.
\<close>

theorem calculateTotalSupply_sum:
  assumes sorted: "\<forall>b\<in>set bs. isSorted (Balance_Coins b)"
      and bound: "\<forall>x. (\<Sum>b\<leftarrow>bs. abs_amount_of (Balance_Coins b) x) < 2 ^ MaxBitLen"
  shows "\<exists>supply. calculateTotalSupply bs = Inr supply
       \<and> (\<forall>x. amount_of supply x = (\<Sum>b\<leftarrow>bs. amount_of (Balance_Coins b) x))
       \<and> (\<forall>bs'. mset bs' = mset bs \<longrightarrow> calculateTotalSupply bs' = Inr supply)"
proof -
  let ?f = "\<lambda>b t. added_coins t (Balance_Coins b)"
  have empty: "amount_of [] x = 0" "abs_amount_of [] x = 0" for x
    by (simp_all add: amount_of_def abs_amount_of_def)
  have res: "calculateTotalSupply bs = Inr (fold ?f bs [])"
    unfolding calculateTotalSupply_start
    using sorted bound by (intro supply_loop_ok) (simp_all add: empty)
  have amt: "\<forall>x. amount_of (fold ?f bs []) x = (\<Sum>b\<leftarrow>bs. amount_of (Balance_Coins b) x)"
    by (simp add: fold_added_amount empty)
  have perm: "calculateTotalSupply bs' = Inr (fold ?f bs [])" if eq: "mset bs' = mset bs" for bs'
  proof -
    have set: "set bs' = set bs"
      using eq by (rule mset_eq_setD)
    have sum: "(\<Sum>b\<leftarrow>bs'. abs_amount_of (Balance_Coins b) x)
                 = (\<Sum>b\<leftarrow>bs. abs_amount_of (Balance_Coins b) x)" for x
      using eq by (metis mset_map sum_mset_sum_list)
    have "calculateTotalSupply bs' = Inr (fold ?f bs' [])"
      unfolding calculateTotalSupply_start
      using sorted bound by (intro supply_loop_ok) (simp_all add: empty set sum)
    then show ?thesis
      by (simp add: fold_added_perm[OF eq])
  qed
  from res amt perm show ?thesis by blast
qed

theorem calculateTotalSupply_sum_witness:
  "\<exists>supply. calculateTotalSupply demo_balances = Inr supply
     \<and> amount_of supply ''aevmos'' = 7 \<and> amount_of supply ''stake'' = 3
     \<and> calculateTotalSupply (rev demo_balances) = Inr supply"
proof -
  have sorted: "\<forall>b\<in>set demo_balances. isSorted (Balance_Coins b)"
    by code_simp
  have bound: "\<forall>x. (\<Sum>b\<leftarrow>demo_balances. abs_amount_of (Balance_Coins b) x) < 2 ^ MaxBitLen"
    by (simp add: demo_balances_def abs_amount_of_def MaxBitLen_def)
  obtain tot where r: "calculateTotalSupply demo_balances = Inr tot"
    and a: "\<forall>x. amount_of tot x = (\<Sum>b\<leftarrow>demo_balances. amount_of (Balance_Coins b) x)"
    and p: "\<forall>bs'. mset bs' = mset demo_balances \<longrightarrow> calculateTotalSupply bs' = Inr tot"
    using calculateTotalSupply_sum[OF sorted bound] by blast
  have "amount_of tot ''aevmos'' = 7" "amount_of tot ''stake'' = 3"
    using a by (simp_all add: demo_balances_def amount_of_def)
  moreover have "calculateTotalSupply (rev demo_balances) = Inr tot"
    using p by simp
  ultimately show ?thesis
    using r by blast
qed



subsection \<open>Genesis composers\<close>

lemma demo_override_entries:
  "demo_overrides infl_ModuleName = Some (InflationGenesisPtr (Some demo_inflation_genesis))"
  "demo_overrides evm_ModuleName = Some (EvmGenesisPtr (Some (evm_GenesisState ''accounts'')))"
  "demo_bad_overrides infl_ModuleName =
     Some (EvmGenesisPtr (Some (evm_GenesisState ''accounts'')))"
  "demo_bad_overrides evm_ModuleName = Some (OtherValue ''string'')"
  "demo_nil_overrides infl_ModuleName = Some (InflationGenesisPtr None)"
  "demo_nil_overrides evm_ModuleName = Some (EvmGenesisPtr None)"
  by (simp_all add: demo_overrides_def demo_bad_overrides_def demo_nil_overrides_def
        infl_ModuleName_def evm_ModuleName_def)

lemma demo_marshalled:
  "MustMarshalJSON (AppCodec demo_app) (InflationGenesis demo_inflation_genesis) =
     ''inflation:week''"
  "MustMarshalJSON (AppCodec demo_app) (EvmGenesis (evm_GenesisState ''accounts'')) =
     ''evm:accounts''"
  by (simp_all add: demo_app_def demo_inflation_genesis_def infl_NewGenesisState_def)

text \<open>
  An override that is a \<open>nil\<close> pointer of the expected type passes the type assertion,
  and the serialization panics: the composer returns neither the error nor a genesis
  map with the section.
\<close>

theorem nil_override_counterexample:
  "demo_nil_overrides infl_ModuleName = Some (InflationGenesisPtr None)
   \<and> is_inflation_genesis (InflationGenesisPtr None)
   \<and> panics (setInflationGenesisState demo_deps demo_app demo_genesis demo_nil_overrides)
   \<and> demo_nil_overrides evm_ModuleName = Some (EvmGenesisPtr None)
   \<and> is_evm_genesis (EvmGenesisPtr None)
   \<and> panics (setEVMGenesisState demo_app demo_genesis demo_nil_overrides)"
  by (simp add: demo_override_entries setInflationGenesisState_def setEVMGenesisState_def
        MustMarshalJSON_ptr_def panics_def)

text \<open>
  C5. When the custom-genesis map holds an inflation (an EVM) override: an override
  whose dynamic type is not the module's genesis type makes \<open>setInflationGenesisState\<close>
  (\<open>setEVMGenesisState\<close>) return the error naming that type, with a \<open>nil\<close> map; an
  override of the expected type that points to a genesis state is serialized by the
  application's codec and stored, as it is, under the module's key of the genesis map,
  which is returned with no error; an override of the expected type that is a \<open>nil\<close>
  pointer makes the composer panic.
\<close>

theorem custom_override_spec:
  "(cg infl_ModuleName = Some (InflationGenesisPtr (Some ig)) \<longrightarrow>
      setInflationGenesisState d app g cg =
        Inr (g(infl_ModuleName \<mapsto> MustMarshalJSON (AppCodec app) (InflationGenesis ig)),
             Some (g(infl_ModuleName \<mapsto> MustMarshalJSON (AppCodec app) (InflationGenesis ig))),
             None))
   \<and> (cg infl_ModuleName = Some v \<and> \<not> is_inflation_genesis v \<longrightarrow>
      setInflationGenesisState d app g cg =
        Inr (g, None,
             Some (Errorf (''invalid type '' @ fmt_T v @ '' for inflation genesis state''))))
   \<and> (cg infl_ModuleName = Some (InflationGenesisPtr None) \<longrightarrow>
      panics (setInflationGenesisState d app g cg))
   \<and> (cg evm_ModuleName = Some (EvmGenesisPtr (Some eg)) \<longrightarrow>
      setEVMGenesisState app g cg =
        Inr (g(evm_ModuleName \<mapsto> MustMarshalJSON (AppCodec app) (EvmGenesis eg)),
             Some (g(evm_ModuleName \<mapsto> MustMarshalJSON (AppCodec app) (EvmGenesis eg))),
             None))
   \<and> (cg evm_ModuleName = Some w \<and> \<not> is_evm_genesis w \<longrightarrow>
      setEVMGenesisState app g cg =
        Inr (g, None,
             Some (Errorf (''invalid type '' @ fmt_T w @ '' for evm genesis state''))))
   \<and> (cg evm_ModuleName = Some (EvmGenesisPtr None) \<longrightarrow>
      panics (setEVMGenesisState app g cg))"
  by (cases v; cases w)
     (simp_all add: setInflationGenesisState_def setEVMGenesisState_def
        MustMarshalJSON_ptr_def Let_def panics_def)

theorem custom_override_spec_witness:
  "setInflationGenesisState demo_deps demo_app demo_genesis demo_overrides =
     Inr (demo_genesis(infl_ModuleName \<mapsto> ''inflation:week''),
          Some (demo_genesis(infl_ModuleName \<mapsto> ''inflation:week'')), None)
   \<and> setEVMGenesisState demo_app demo_genesis demo_overrides =
     Inr (demo_genesis(evm_ModuleName \<mapsto> ''evm:accounts''),
          Some (demo_genesis(evm_ModuleName \<mapsto> ''evm:accounts'')), None)
   \<and> setInflationGenesisState demo_deps demo_app demo_genesis demo_bad_overrides =
       Inr (demo_genesis, None,
            Some (Errorf ''invalid type *types.GenesisState for inflation genesis state''))
   \<and> setEVMGenesisState demo_app demo_genesis demo_bad_overrides =
       Inr (demo_genesis, None, Some (Errorf ''invalid type string for evm genesis state''))
   \<and> panics (setInflationGenesisState demo_deps demo_app demo_genesis demo_nil_overrides)"
proof -
  note good = custom_override_spec[where cg = demo_overrides and ig = demo_inflation_genesis
      and eg = "evm_GenesisState ''accounts''" and d = demo_deps and app = demo_app
      and g = demo_genesis and v = NilValue and w = NilValue]
  note bad = custom_override_spec[where cg = demo_bad_overrides and ig = demo_inflation_genesis
      and eg = "evm_GenesisState ''accounts''" and d = demo_deps and app = demo_app
      and g = demo_genesis and v = "EvmGenesisPtr (Some (evm_GenesisState ''accounts''))"
      and w = "OtherValue ''string''"]
  note nil = custom_override_spec[where cg = demo_nil_overrides and ig = demo_inflation_genesis
      and eg = "evm_GenesisState ''accounts''" and d = demo_deps and app = demo_app
      and g = demo_genesis and v = NilValue and w = NilValue]
  have a: "setInflationGenesisState demo_deps demo_app demo_genesis demo_overrides =
     Inr (demo_genesis(infl_ModuleName \<mapsto> ''inflation:week''),
          Some (demo_genesis(infl_ModuleName \<mapsto> ''inflation:week'')), None)"
    using good demo_override_entries(1) by (simp only: demo_marshalled)
  have b: "setEVMGenesisState demo_app demo_genesis demo_overrides =
     Inr (demo_genesis(evm_ModuleName \<mapsto> ''evm:accounts''),
          Some (demo_genesis(evm_ModuleName \<mapsto> ''evm:accounts'')), None)"
    using good demo_override_entries(2) by (simp only: demo_marshalled)
  have c: "setInflationGenesisState demo_deps demo_app demo_genesis demo_bad_overrides =
       Inr (demo_genesis, None,
            Some (Errorf ''invalid type *types.GenesisState for inflation genesis state''))"
    using bad demo_override_entries(3) by simp
  have e: "setEVMGenesisState demo_app demo_genesis demo_bad_overrides =
       Inr (demo_genesis, None, Some (Errorf ''invalid type string for evm genesis state''))"
    using bad demo_override_entries(4) by simp
  have f: "panics (setInflationGenesisState demo_deps demo_app demo_genesis demo_nil_overrides)"
    using nil demo_override_entries(5) by blast
  from a b c e f show ?thesis by simp
qed

text \<open>
  C6. When the custom-genesis map holds no inflation override,
  \<open>setInflationGenesisState\<close> stores under the inflation module's key the serialized
  genesis state whose parameters are the module's defaults with inflation switched off,
  with zero skipped epochs, the epoch identifier "day", 365 epochs per period and period
  0; it returns the map with no error.
\<close>

theorem default_inflation_spec:
  assumes "cg infl_ModuleName = None"
  shows "\<exists>gen. setInflationGenesisState d app g cg =
           Inr (g(infl_ModuleName \<mapsto> MustMarshalJSON (AppCodec app) (InflationGenesis gen)),
                Some (g(infl_ModuleName \<mapsto>
                  MustMarshalJSON (AppCodec app) (InflationGenesis gen))),
                None)
         \<and> infl_Params gen = (infl_DefaultParams d)\<lparr>EnableInflation := False\<rparr>
         \<and> EnableInflation (infl_Params gen) = False
         \<and> SkippedEpochs gen = 0
         \<and> EpochIdentifier gen = ''day''
         \<and> EpochsPerPeriod gen = 365
         \<and> Period gen = 0"
  using assms
  by (intro exI[of _ "infl_NewGenesisState ((infl_DefaultParams d)\<lparr>EnableInflation := False\<rparr>)
                        0 DayEpochID 365 0"])
     (simp add: setInflationGenesisState_def Let_def MustMarshalJSON_ptr_def
        infl_NewGenesisState_def DayEpochID_def)

theorem default_inflation_spec_witness:
  "\<exists>written. setInflationGenesisState demo_deps demo_app demo_genesis Map.empty =
       Inr (written, Some written, None)
     \<and> written infl_ModuleName = Some ''inflation:day''"
proof -
  obtain gen where
    r: "setInflationGenesisState demo_deps demo_app demo_genesis Map.empty =
          Inr (demo_genesis(infl_ModuleName \<mapsto>
                 MustMarshalJSON (AppCodec demo_app) (InflationGenesis gen)),
               Some (demo_genesis(infl_ModuleName \<mapsto>
                 MustMarshalJSON (AppCodec demo_app) (InflationGenesis gen))),
               None)"
    and i: "EpochIdentifier gen = ''day''"
    using default_inflation_spec[of Map.empty demo_deps demo_app demo_genesis] by auto
  have "MustMarshalJSON (AppCodec demo_app) (InflationGenesis gen) = ''inflation:day''"
    using i by (simp add: demo_app_def)
  with r show ?thesis by simp
qed

text \<open>
  C7. Two calls of \<open>setStakingGenesisState\<close> on the same genesis map leave the map a
  single call with the second call's arguments leaves: the staking module's entry is the
  serialized genesis state made of the default parameters with the second call's bond
  denomination, the second call's validators and the second call's delegations, and
  nothing of the first call is kept.
\<close>

theorem staking_overwrite_spec:
  "setStakingGenesisState d app2 (setStakingGenesisState d app1 g p1) p2 =
     setStakingGenesisState d app2 g p2
   \<and> setStakingGenesisState d app2 (setStakingGenesisState d app1 g p1) p2 staking_ModuleName =
       Some (MustMarshalJSON (AppCodec app2)
         (StakingGenesis
           \<lparr>staking_Params = (staking_DefaultParams d)\<lparr>BondDenom := denom p2\<rparr>,
            staking_Validators = validators p2,
            staking_Delegations = delegations p2\<rparr>))"
  by (simp add: setStakingGenesisState_def Let_def staking_NewGenesisState_def)

theorem staking_overwrite_spec_witness:
  "setStakingGenesisState demo_deps demo_app
     (setStakingGenesisState demo_deps demo_app demo_genesis demo_staking_one) demo_staking_two
     staking_ModuleName = Some ''staking:aevmos''"
proof -
  have "MustMarshalJSON (AppCodec demo_app)
         (StakingGenesis
           \<lparr>staking_Params = (staking_DefaultParams demo_deps)\<lparr>BondDenom := denom demo_staking_two\<rparr>,
            staking_Validators = validators demo_staking_two,
            staking_Delegations = delegations demo_staking_two\<rparr>) = ''staking:aevmos''"
    by (simp add: demo_app_def demo_staking_two_def)
  then show ?thesis
    using staking_overwrite_spec[of demo_deps demo_app demo_app demo_genesis demo_staking_one
        demo_staking_two, THEN conjunct2]
    by (simp only:)
qed

text \<open>
  C8. When the custom-genesis map holds no EVM override, \<open>setEVMGenesisState\<close> returns
  the genesis map it was given, with no error, and the map is as it was: no key is
  added, removed or changed, the EVM module's key included.
\<close>

theorem evm_no_override_spec:
  assumes "cg evm_ModuleName = None"
  shows "setEVMGenesisState app g cg = Inr (g, Some g, None)"
  using assms by (simp add: setEVMGenesisState_def)

theorem evm_no_override_spec_witness:
  "setEVMGenesisState demo_app demo_genesis Map.empty =
     Inr (demo_genesis, Some demo_genesis, None)
   \<and> demo_genesis evm_ModuleName = None"
proof -
  have "demo_genesis evm_ModuleName = None"
    by (simp add: demo_genesis_def evm_ModuleName_def)
  then show ?thesis
    using evm_no_override_spec[of Map.empty demo_app demo_genesis] by simp
qed

text \<open>
  C10. When \<open>setInflationGenesisState\<close> or \<open>setEVMGenesisState\<close> returns an error (the
  type mismatch is their only one), the genesis map passed in is as it was before the
  call, and the returned genesis map is \<open>nil\<close>.
\<close>

theorem mismatch_leaves_map_spec:
  "(\<forall>r. setInflationGenesisState d app g cg = Inr r \<and> snd (snd r) \<noteq> None \<longrightarrow>
      fst r = g \<and> fst (snd r) = None)
   \<and> (\<forall>r. setEVMGenesisState app g cg = Inr r \<and> snd (snd r) \<noteq> None \<longrightarrow>
      fst r = g \<and> fst (snd r) = None)"
  by (auto simp: setInflationGenesisState_def setEVMGenesisState_def Let_def
        MustMarshalJSON_ptr_def
        split: option.splits iface.splits sum.splits)

theorem mismatch_leaves_map_spec_witness:
  "setInflationGenesisState demo_deps demo_app demo_genesis demo_bad_overrides =
     Inr (demo_genesis, None,
          Some (Errorf ''invalid type *types.GenesisState for inflation genesis state''))
   \<and> setEVMGenesisState demo_app demo_genesis demo_bad_overrides =
     Inr (demo_genesis, None, Some (Errorf ''invalid type string for evm genesis state''))"
proof -
  obtain m1 r1 where a: "setInflationGenesisState demo_deps demo_app demo_genesis
      demo_bad_overrides = Inr (m1, r1,
        Some (Errorf ''invalid type *types.GenesisState for inflation genesis state''))"
    by (simp add: setInflationGenesisState_def demo_override_entries)
  obtain m2 r2 where b: "setEVMGenesisState demo_app demo_genesis demo_bad_overrides =
      Inr (m2, r2, Some (Errorf ''invalid type string for evm genesis state''))"
    by (simp add: setEVMGenesisState_def demo_override_entries)
  note t = mismatch_leaves_map_spec[of demo_deps demo_app demo_genesis demo_bad_overrides]
  from t a have "m1 = demo_genesis \<and> r1 = None"
    by auto
  moreover from t b have "m2 = demo_genesis \<and> r2 = None"
    by auto
  ultimately show ?thesis
    using a b by simp
qed

subsection \<open>Staking validators\<close>

lemma createStakingValidator_Inl:
  "createStakingValidator d val amt = Inl e \<longleftrightarrow>
     FromTmPubKeyInterface d (PubKey val) = Inl e
     \<or> (\<exists>pk. FromTmPubKeyInterface d (PubKey val) = Inr pk \<and> NewAnyWithValue d pk = Inl e)"
  by (auto simp: createStakingValidator_def Let_def split: sum.splits)

lemma staking_loop_Inr:
  "createStakingValidators_loop d vals amt acc = Inr rs \<longleftrightarrow>
     (\<exists>new. rs = acc @ new \<and> list_all2 (\<lambda>val r. createStakingValidator d val amt = Inr r) vals new)"
proof (induction vals arbitrary: acc)
  case Nil
  then show ?case by auto
next
  case (Cons val rest)
  show ?case
  proof (cases "createStakingValidator d val amt")
    case (Inl e)
    then show ?thesis by (auto simp: list_all2_Cons1)
  next
    case (Inr r)
    then show ?thesis by (auto simp: Cons.IH list_all2_Cons1)
  qed
qed

lemma staking_loop_Inl:
  "createStakingValidators_loop d vals amt acc = Inl e \<longleftrightarrow>
     (\<exists>pre v post. vals = pre @ v # post
        \<and> (\<forall>u\<in>set pre. \<exists>r. createStakingValidator d u amt = Inr r)
        \<and> createStakingValidator d v amt = Inl e)"
proof (induction vals arbitrary: acc)
  case Nil
  then show ?case by simp
next
  case (Cons val rest)
  show ?case
  proof (cases "createStakingValidator d val amt")
    case (Inl e')
    show ?thesis
    proof
      assume "createStakingValidators_loop d (val # rest) amt acc = Inl e"
      with Inl have "createStakingValidator d val amt = Inl e" by simp
      then have "val # rest = [] @ val # rest \<and> (\<forall>u\<in>set []. \<exists>r. createStakingValidator d u amt = Inr r)
        \<and> createStakingValidator d val amt = Inl e" by simp
      then show "\<exists>pre v post. val # rest = pre @ v # post
        \<and> (\<forall>u\<in>set pre. \<exists>r. createStakingValidator d u amt = Inr r)
        \<and> createStakingValidator d v amt = Inl e" by blast
    next
      assume "\<exists>pre v post. val # rest = pre @ v # post
        \<and> (\<forall>u\<in>set pre. \<exists>r. createStakingValidator d u amt = Inr r)
        \<and> createStakingValidator d v amt = Inl e"
      then obtain pre v post where p: "val # rest = pre @ v # post"
        "\<forall>u\<in>set pre. \<exists>r. createStakingValidator d u amt = Inr r"
        "createStakingValidator d v amt = Inl e" by blast
      have "pre = []"
      proof (cases pre)
        case Nil then show ?thesis .
      next
        case (Cons u us)
        with p(1) have "u = val" by simp
        with p(2) Cons Inl show ?thesis by auto
      qed
      with p Inl show "createStakingValidators_loop d (val # rest) amt acc = Inl e" by simp
    qed
  next
    case (Inr r)
    show ?thesis
    proof
      assume "createStakingValidators_loop d (val # rest) amt acc = Inl e"
      with Inr have "createStakingValidators_loop d rest amt (acc @ [r]) = Inl e" by simp
      then obtain pre v post where p: "rest = pre @ v # post"
        "\<forall>u\<in>set pre. \<exists>r. createStakingValidator d u amt = Inr r"
        "createStakingValidator d v amt = Inl e" using Cons.IH by blast
      from p Inr have "val # rest = (val # pre) @ v # post
        \<and> (\<forall>u\<in>set (val # pre). \<exists>r. createStakingValidator d u amt = Inr r)
        \<and> createStakingValidator d v amt = Inl e" by simp
      then show "\<exists>pre v post. val # rest = pre @ v # post
        \<and> (\<forall>u\<in>set pre. \<exists>r. createStakingValidator d u amt = Inr r)
        \<and> createStakingValidator d v amt = Inl e" by blast
    next
      assume "\<exists>pre v post. val # rest = pre @ v # post
        \<and> (\<forall>u\<in>set pre. \<exists>r. createStakingValidator d u amt = Inr r)
        \<and> createStakingValidator d v amt = Inl e"
      then obtain pre v post where p: "val # rest = pre @ v # post"
        "\<forall>u\<in>set pre. \<exists>r. createStakingValidator d u amt = Inr r"
        "createStakingValidator d v amt = Inl e" by blast
      obtain us where us: "pre = val # us"
      proof (cases pre)
        case Nil
        with p(1) have "v = val" by simp
        with p(3) Inr show ?thesis by simp
      next
        case (Cons u us)
        with p(1) that show ?thesis by simp
      qed
      with p have "rest = us @ v # post" "\<forall>u\<in>set us. \<exists>r. createStakingValidator d u amt = Inr r"
        by simp_all
      with p(3) have "createStakingValidators_loop d rest amt (acc @ [r]) = Inl e"
        using Cons.IH by blast
      with Inr show "createStakingValidators_loop d (val # rest) amt acc = Inl e" by simp
    qed
  qed
qed


text \<open>
  C9. For a consensus validator whose public key is converted (by
  \<open>FromTmPubKeyInterface\<close> and then wrapped by \<open>NewAnyWithValue\<close>, the two steps of the
  conversion), \<open>createStakingValidator\<close> returns a record with that envelope as consensus
  key, the three commission rates zero, status bonded, not jailed, delegator shares 1.0,
  minimum self-delegation zero, unbonding height zero and unbonding time the zero Unix
  time in UTC; the tokens are the bonded amount. When every validator of a list
  converts, \<open>createStakingValidators\<close> returns one record for each, in the list's order.
\<close>

theorem createStakingValidator_spec:
  "(FromTmPubKeyInterface d (PubKey val) = Inr pk \<and> NewAnyWithValue d pk = Inr pkAny \<longrightarrow>
     (\<exists>v. createStakingValidator d val amt = Inr v
        \<and> ConsensusPubkey v = Some pkAny
        \<and> OperatorAddress v = ValAddress_String d (Address val)
        \<and> Tokens v = amt
        \<and> dec_value (Rate (Commission_Rates (Validator_Commission v))) = 0
        \<and> dec_value (MaxRate (Commission_Rates (Validator_Commission v))) = 0
        \<and> dec_value (MaxChangeRate (Commission_Rates (Validator_Commission v))) = 0
        \<and> Status v = Bonded
        \<and> Jailed v = False
        \<and> dec_value (DelegatorShares v) = 1
        \<and> MinSelfDelegation v = 0
        \<and> UnbondingHeight v = 0
        \<and> UnbondingTime v = \<lparr>unix_sec = 0, unix_nsec = 0, loc = UTC\<rparr>))
   \<and> ((\<forall>u\<in>set vals. \<exists>k a. FromTmPubKeyInterface d (PubKey u) = Inr k
                            \<and> NewAnyWithValue d k = Inr a) \<longrightarrow>
     (\<exists>rs. createStakingValidators d vals amt = Inr rs
        \<and> length rs = length vals
        \<and> (\<forall>i<length vals. createStakingValidator d (vals ! i) amt = Inr (rs ! i))))"
proof (intro conjI impI)
  assume "FromTmPubKeyInterface d (PubKey val) = Inr pk \<and> NewAnyWithValue d pk = Inr pkAny"
  then show "\<exists>v. createStakingValidator d val amt = Inr v
        \<and> ConsensusPubkey v = Some pkAny
        \<and> OperatorAddress v = ValAddress_String d (Address val)
        \<and> Tokens v = amt
        \<and> dec_value (Rate (Commission_Rates (Validator_Commission v))) = 0
        \<and> dec_value (MaxRate (Commission_Rates (Validator_Commission v))) = 0
        \<and> dec_value (MaxChangeRate (Commission_Rates (Validator_Commission v))) = 0
        \<and> Status v = Bonded
        \<and> Jailed v = False
        \<and> dec_value (DelegatorShares v) = 1
        \<and> MinSelfDelegation v = 0
        \<and> UnbondingHeight v = 0
        \<and> UnbondingTime v = \<lparr>unix_sec = 0, unix_nsec = 0, loc = UTC\<rparr>"
    by (simp add: createStakingValidator_def Let_def NewCommission_def LegacyZeroDec_def
          LegacyOneDec_def dec_value_def ZeroInt_def time_Unix_def time_UTC_def)
next
  assume ok: "\<forall>u\<in>set vals. \<exists>k a. FromTmPubKeyInterface d (PubKey u) = Inr k
                            \<and> NewAnyWithValue d k = Inr a"
  have each: "\<forall>u\<in>set vals. \<exists>r. createStakingValidator d u amt = Inr r"
  proof
    fix u assume "u \<in> set vals"
    with ok obtain k a where "FromTmPubKeyInterface d (PubKey u) = Inr k" "NewAnyWithValue d k = Inr a"
      by blast
    then show "\<exists>r. createStakingValidator d u amt = Inr r"
      by (simp add: createStakingValidator_def Let_def)
  qed
  then have "\<exists>rs. list_all2 (\<lambda>val r. createStakingValidator d val amt = Inr r) vals rs"
    by (induction vals) (auto simp: list_all2_Cons1)
  then obtain rs where rs: "list_all2 (\<lambda>val r. createStakingValidator d val amt = Inr r) vals rs"
    by blast
  then have "createStakingValidators d vals amt = Inr rs"
    by (simp add: createStakingValidators_def staking_loop_Inr)
  moreover have "length rs = length vals"
    using rs by (simp add: list_all2_lengthD)
  moreover have "\<forall>i<length vals. createStakingValidator d (vals ! i) amt = Inr (rs ! i)"
    using rs by (simp add: list_all2_conv_all_nth)
  ultimately show "\<exists>rs. createStakingValidators d vals amt = Inr rs
        \<and> length rs = length vals
        \<and> (\<forall>i<length vals. createStakingValidator d (vals ! i) amt = Inr (rs ! i))"
    by blast
qed

theorem createStakingValidator_spec_witness:
  "(\<exists>v. createStakingValidator demo_deps demo_validator 5 = Inr v
      \<and> ConsensusPubkey v = Some \<lparr>TypeUrl = ''/cosmos.crypto.ed25519.PubKey'', Value = ''kk''\<rparr>
      \<and> Status v = Bonded \<and> dec_value (DelegatorShares v) = 1 \<and> Tokens v = 5)
   \<and> (\<exists>rs. createStakingValidators demo_deps [demo_validator, demo_validator] 5 = Inr rs
      \<and> length rs = 2
      \<and> createStakingValidator demo_deps demo_validator 5 = Inr (rs ! 1))"
proof -
  let ?pk = "SdkPubKey ''ed25519'' ''kk''"
  let ?any = "\<lparr>TypeUrl = ''/cosmos.crypto.ed25519.PubKey'', Value = ''kk''\<rparr>"
  let ?vals = "[demo_validator, demo_validator]"
  have conv: "FromTmPubKeyInterface demo_deps (PubKey demo_validator) = Inr ?pk
      \<and> NewAnyWithValue demo_deps ?pk = Inr ?any"
    by (simp add: demo_deps_def demo_validator_def)
  then have all: "\<forall>u\<in>set ?vals. \<exists>k a. FromTmPubKeyInterface demo_deps (PubKey u) = Inr k
      \<and> NewAnyWithValue demo_deps k = Inr a"
    by auto
  note t = createStakingValidator_spec[of demo_deps demo_validator ?pk ?any 5 ?vals]
  from t conv have one: "\<exists>v. createStakingValidator demo_deps demo_validator 5 = Inr v
      \<and> ConsensusPubkey v = Some ?any
      \<and> Status v = Bonded \<and> dec_value (DelegatorShares v) = 1 \<and> Tokens v = 5"
    by blast
  from t all obtain rs where "createStakingValidators demo_deps ?vals 5 = Inr rs"
    "length rs = length ?vals"
    "\<forall>i<length ?vals. createStakingValidator demo_deps (?vals ! i) 5 = Inr (rs ! i)"
    by blast
  then have "createStakingValidators demo_deps ?vals 5 = Inr rs \<and> length rs = 2
      \<and> createStakingValidator demo_deps demo_validator 5 = Inr (rs ! 1)"
    by auto
  with one show ?thesis by blast
qed

subsection \<open>Returned errors and panics\<close>




end
